theory Spec2Isabelle
  imports Main "HOL-Library.Word" "HOL-Library.Finite_Map" "HOL-Library.Sublist"
begin

section \<open>Go values used by the FlightSQL server\<close>

type_synonym bytes = "8 word list"

text \<open>gRPC status codes used in \<^verbatim>\<open>server.go\<close>.\<close>

datatype Code = InvalidArgument | NotFound | Unimplemented | Internal

text \<open>
  A Go \<^verbatim>\<open>error\<close> value: one built by \<^verbatim>\<open>status.Error\<close>/\<^verbatim>\<open>status.Errorf\<close> (a code
  and a message), or any other error, known by its message (\<^verbatim>\<open>fmt.Errorf\<close>, errors of
  handlers and of the transport). The nil error is \<open>None\<close> of \<open>error option\<close>.
\<close>

datatype error = StatusError Code string | PlainError string

text \<open>A call either returns or panics at run time (the message is the Go runtime's).\<close>

datatype 'a outcome = Returns 'a | Panics string

text \<open>\<^verbatim>\<open>%d\<close> of an unsigned integer: its decimal digits.\<close>

fun fmt_d :: "nat \<Rightarrow> string" where
  "fmt_d n = (if n < 10 then [''0123456789'' ! n]
              else fmt_d (n div 10) @ [''0123456789'' ! (n mod 10)])"

declare fmt_d.simps [simp del]

section \<open>Capability values and the registry of \<^verbatim>\<open>BaseServer\<close>\<close>

text \<open>
  The dynamic value behind the \<^verbatim>\<open>interface{}\<close> passed to \<^verbatim>\<open>RegisterSqlInfo\<close>: one of
  the six shapes the type switch names, or a value of any other dynamic type, kept by the
  name \<^verbatim>\<open>%T\<close> prints for it (\<^verbatim>\<open><nil>\<close> for the nil interface).
\<close>

datatype SqlInfoResult =
    StringVal string
  | BoolVal bool
  | Int64Val "64 word"
  | Int32Val "32 word"
  | StringListVal "string list"
  | Int32ListMapVal "(32 word, 32 word list) fmap"
  | OtherVal string

text \<open>\<^verbatim>\<open>%T\<close>: the Go name of the dynamic type.\<close>

fun fmt_T :: "SqlInfoResult \<Rightarrow> string" where
  "fmt_T (StringVal _) = ''string''"
| "fmt_T (BoolVal _) = ''bool''"
| "fmt_T (Int64Val _) = ''int64''"
| "fmt_T (Int32Val _) = ''int32''"
| "fmt_T (StringListVal _) = ''[]string''"
| "fmt_T (Int32ListMapVal _) = ''map[int32][]int32''"
| "fmt_T (OtherVal t) = t"

text \<open>
  The first case of the type switch in \<^verbatim>\<open>RegisterSqlInfo\<close>:
  \<^verbatim>\<open>case string, bool, int64, int32, []string, map[int32][]int32\<close>.
\<close>

fun permitted :: "SqlInfoResult \<Rightarrow> bool" where
  "permitted (OtherVal _) = False"
| "permitted _ = True"

text \<open>\<^verbatim>\<open>SqlInfoResultMap\<close>, a Go map keyed by \<^verbatim>\<open>uint32\<close>; \<open>None\<close> is the nil map.\<close>

type_synonym SqlInfoResultMap = "(32 word, SqlInfoResult) fmap option"

datatype Allocator = DefaultAllocator | CustomAllocator nat

record BaseServer =
  sqlInfoToResult :: SqlInfoResultMap
  Alloc :: "Allocator option"

text \<open>The zero value of the struct: a nil map and a nil allocator.\<close>

definition zero_BaseServer :: BaseServer where
  "zero_BaseServer = \<lparr>sqlInfoToResult = None, Alloc = None\<rparr>"

text \<open>\<^verbatim>\<open>len(m)\<close> and \<^verbatim>\<open>v, ok := m[k]\<close>; both are defined on the nil map.\<close>

fun len_map :: "SqlInfoResultMap \<Rightarrow> nat" where
  "len_map None = 0"
| "len_map (Some m) = fcard (fmdom m)"

fun index_map :: "SqlInfoResultMap \<Rightarrow> 32 word \<Rightarrow> SqlInfoResult option" where
  "index_map None k = None"
| "index_map (Some m) k = fmlookup m k"

definition invalid_type_msg :: "SqlInfoResult \<Rightarrow> 32 word \<Rightarrow> string" where
  "invalid_type_msg result ident =
     ''invalid sql info type '' @ [CHR 0x27] @ fmt_T result @ [CHR 0x27]
       @ '' registered for id: '' @ fmt_d (unat ident)"

text \<open>
  \<^verbatim>\<open>func (b *BaseServer) RegisterSqlInfo(id SqlInfo, result interface{}) error\<close>.
  The store \<^verbatim>\<open>b.sqlInfoToResult[uint32(id)] = result\<close> is a plain map assignment, which
  the Go runtime answers with a panic when the map is nil.
\<close>

definition RegisterSqlInfo ::
  "BaseServer \<Rightarrow> 32 word \<Rightarrow> SqlInfoResult \<Rightarrow> (error option \<times> BaseServer) outcome" where
  "RegisterSqlInfo b ident result =
     (if permitted result then
        (case sqlInfoToResult b of
           None \<Rightarrow> Panics ''assignment to entry in nil map''
         | Some m \<Rightarrow> Returns (None, b\<lparr>sqlInfoToResult := Some (fmupd ident result m)\<rparr>))
      else Returns (Some (PlainError (invalid_type_msg result ident)), b))"

section \<open>Flight messages\<close>

record FlightDescriptor =
  Cmd :: bytes
  Path :: "string list"

record Ticket =
  Ticket_Ticket :: bytes

record FlightEndpoint =
  Ticket :: "Ticket option"
  Location :: "string list"

text \<open>\<^verbatim>\<open>TotalRecords\<close> and \<^verbatim>\<open>TotalBytes\<close> are \<^verbatim>\<open>int64\<close>; \<open>sint\<close> reads them.\<close>

record FlightInfo =
  Schema :: bytes
  FlightDescriptor :: "FlightDescriptor option"
  Endpoint :: "FlightEndpoint list"
  TotalRecords :: "64 word"
  TotalBytes :: "64 word"

section \<open>Arrow schemas, arrays and records\<close>

datatype DataType =
    UINT32 | UTF8 | BOOL | INT64 | INT32
  | LIST DataType
  | MAP DataType DataType
  | DENSE_UNION "(string \<times> DataType) list"
  | OTHER_TYPE string

type_synonym ArrowSchema = "(string \<times> DataType) list"

text \<open>
  Modelled from the spec: \<^verbatim>\<open>schema_ref.SqlInfo\<close> is declared outside the given sources.
  The spec's capability record schema: two columns, \<^verbatim>\<open>info_name:uint32\<close> and
  \<^verbatim>\<open>value\<close>, a dense union whose children stand in the order of their type codes.
\<close>

definition schema_ref_SqlInfo :: ArrowSchema where
  "schema_ref_SqlInfo =
     [(''info_name'', UINT32),
      (''value'', DENSE_UNION
         [(''string_value'', UTF8),
          (''bool_value'', BOOL),
          (''bigint_value'', INT64),
          (''int_value'', INT32),
          (''string_list'', LIST UTF8),
          (''int32_to_int32_list_map'', MAP INT32 (LIST INT32))])]"

text \<open>
  Modelled from the spec: the dense-union builder of the \<^verbatim>\<open>array\<close> package is outside
  the given sources. A dense union stores one type code and one child offset per row,
  and the values packed per child array; there is one child per value shape.
\<close>

record DenseUnion =
  typeCodes :: "nat list"
  valueOffsets :: "nat list"
  stringValue :: "string list"
  boolValue :: "bool list"
  bigintValue :: "64 word list"
  intValue :: "32 word list"
  stringList :: "string list list"
  int32ToInt32ListMap :: "(32 word, 32 word list) fmap list"

definition empty_DenseUnion :: DenseUnion where
  "empty_DenseUnion =
     \<lparr>typeCodes = [], valueOffsets = [], stringValue = [], boolValue = [],
      bigintValue = [], intValue = [], stringList = [], int32ToInt32ListMap = []\<rparr>"

text \<open>
  Modelled from the spec: \<^verbatim>\<open>sqlInfoResultBuilder.Append\<close> is outside the given sources.
  It dispatches on the stored value's shape, appends the value to the child of that
  shape and records the type code and the child offset. The type codes are fixed:
  string 0, bool 1, int64 2, int32 3, list of strings 4, map 5. The spec names no case
  for a value of another shape; the model appends nothing for it.
\<close>

fun sqlInfoResultBuilder_Append :: "DenseUnion \<Rightarrow> SqlInfoResult \<Rightarrow> DenseUnion" where
  "sqlInfoResultBuilder_Append u (StringVal v) =
     u\<lparr>typeCodes := typeCodes u @ [0],
       valueOffsets := valueOffsets u @ [length (stringValue u)],
       stringValue := stringValue u @ [v]\<rparr>"
| "sqlInfoResultBuilder_Append u (BoolVal v) =
     u\<lparr>typeCodes := typeCodes u @ [1],
       valueOffsets := valueOffsets u @ [length (boolValue u)],
       boolValue := boolValue u @ [v]\<rparr>"
| "sqlInfoResultBuilder_Append u (Int64Val v) =
     u\<lparr>typeCodes := typeCodes u @ [2],
       valueOffsets := valueOffsets u @ [length (bigintValue u)],
       bigintValue := bigintValue u @ [v]\<rparr>"
| "sqlInfoResultBuilder_Append u (Int32Val v) =
     u\<lparr>typeCodes := typeCodes u @ [3],
       valueOffsets := valueOffsets u @ [length (intValue u)],
       intValue := intValue u @ [v]\<rparr>"
| "sqlInfoResultBuilder_Append u (StringListVal v) =
     u\<lparr>typeCodes := typeCodes u @ [4],
       valueOffsets := valueOffsets u @ [length (stringList u)],
       stringList := stringList u @ [v]\<rparr>"
| "sqlInfoResultBuilder_Append u (Int32ListMapVal v) =
     u\<lparr>typeCodes := typeCodes u @ [5],
       valueOffsets := valueOffsets u @ [length (int32ToInt32ListMap u)],
       int32ToInt32ListMap := int32ToInt32ListMap u @ [v]\<rparr>"
| "sqlInfoResultBuilder_Append u (OtherVal t) = u"

text \<open>The type code of a value's shape, as the spec fixes it.\<close>

fun type_code :: "SqlInfoResult \<Rightarrow> nat option" where
  "type_code (StringVal _) = Some 0"
| "type_code (BoolVal _) = Some 1"
| "type_code (Int64Val _) = Some 2"
| "type_code (Int32Val _) = Some 3"
| "type_code (StringListVal _) = Some 4"
| "type_code (Int32ListMapVal _) = Some 5"
| "type_code (OtherVal _) = None"

text \<open>Reading entry \<open>i\<close> of a child array, \<open>None\<close> out of range.\<close>

definition child_at :: "'a list \<Rightarrow> nat \<Rightarrow> 'a option" where
  "child_at xs i = (if i < length xs then Some (xs ! i) else None)"

text \<open>
  Decoding row \<open>k\<close> of a dense union: its type code selects the child, its offset the
  entry of that child. \<open>None\<close> when the row, the code or the offset is out of range.
\<close>

definition union_row :: "DenseUnion \<Rightarrow> nat \<Rightarrow> (nat \<times> SqlInfoResult) option" where
  "union_row u k =
     (if k < length (typeCodes u) \<and> k < length (valueOffsets u) then
        (let c = typeCodes u ! k; off = valueOffsets u ! k in
         if c = 0 then map_option (\<lambda>v. (c, StringVal v)) (child_at (stringValue u) off)
         else if c = 1 then map_option (\<lambda>v. (c, BoolVal v)) (child_at (boolValue u) off)
         else if c = 2 then map_option (\<lambda>v. (c, Int64Val v)) (child_at (bigintValue u) off)
         else if c = 3 then map_option (\<lambda>v. (c, Int32Val v)) (child_at (intValue u) off)
         else if c = 4 then map_option (\<lambda>v. (c, StringListVal v)) (child_at (stringList u) off)
         else if c = 5 then
           map_option (\<lambda>v. (c, Int32ListMapVal v)) (child_at (int32ToInt32ListMap u) off)
         else None)
      else None)"

datatype Array = Uint32Array "32 word list" | DenseUnionArray DenseUnion | OtherArray nat

text \<open>An \<^verbatim>\<open>arrow.Record\<close>: a schema and one array per column.\<close>

record Record =
  rec_schema :: ArrowSchema
  rec_columns :: "Array list"

fun Array_Len :: "Array \<Rightarrow> nat" where
  "Array_Len (Uint32Array xs) = length xs"
| "Array_Len (DenseUnionArray u) = length (typeCodes u)"
| "Array_Len (OtherArray n) = n"

text \<open>The rows of a record are those of its first column.\<close>

fun NumRows :: "Record \<Rightarrow> nat" where
  "NumRows r = (case rec_columns r of [] \<Rightarrow> 0 | c # _ \<Rightarrow> Array_Len c)"

text \<open>
  \<^verbatim>\<open>flight.StreamChunk\<close>, with the four fields \<^verbatim>\<open>DoGet\<close> reads. \<^verbatim>\<open>Data\<close> is an interface
  value and \<^verbatim>\<open>Desc\<close> a pointer: both may be nil.
\<close>

record StreamChunk =
  Data :: "Record option"
  Desc :: "FlightDescriptor option"
  AppMetadata :: bytes
  Err :: "error option"

text \<open>
  Modelled from the spec: \<^verbatim>\<open>array.NewRecordReader\<close> is outside the given sources. It
  fails on an invariant violation, a record whose schema is not the reader's, and
  otherwise reads the records in order.
\<close>

definition NewRecordReader :: "ArrowSchema \<Rightarrow> Record list \<Rightarrow> string + Record list" where
  "NewRecordReader sc recs =
     (if list_all (\<lambda>r. rec_schema r = sc) recs then Inr recs
      else Inl ''arrow/array: mismatch schema'')"

text \<open>
  Modelled from the spec: \<^verbatim>\<open>flight.StreamChunksFromReader\<close> is outside the given sources.
  It sends one chunk per record of the reader, in order, and closes the channel. A
  channel is modelled by the list of chunks sent on it before it is closed.
\<close>

definition StreamChunksFromReader :: "Record list \<Rightarrow> StreamChunk list" where
  "StreamChunksFromReader rdr =
     map (\<lambda>r. \<lparr>Data = Some r, Desc = None, AppMetadata = [], Err = None\<rparr>) rdr"

section \<open>The capability handlers of \<^verbatim>\<open>BaseServer\<close>\<close>

text \<open>\<^verbatim>\<open>if b.Alloc == nil { b.Alloc = memory.DefaultAllocator }\<close>\<close>

definition default_Alloc :: "BaseServer \<Rightarrow> BaseServer" where
  "default_Alloc b = (case Alloc b of None \<Rightarrow> b\<lparr>Alloc := Some DefaultAllocator\<rparr> | Some a \<Rightarrow> b)"

definition the_Alloc :: "BaseServer \<Rightarrow> Allocator" where
  "the_Alloc b = (case Alloc b of None \<Rightarrow> DefaultAllocator | Some a \<Rightarrow> a)"

text \<open>
  \<^verbatim>\<open>func (b *BaseServer) GetFlightInfoSqlInfo(_, _ GetSqlInfo, desc *FlightDescriptor)\<close>.
  \<^verbatim>\<open>flight.SerializeSchema\<close> is outside the given sources and is a parameter.
\<close>

definition BaseServer_GetFlightInfoSqlInfo ::
  "(ArrowSchema \<Rightarrow> Allocator \<Rightarrow> bytes) \<Rightarrow> 32 word list \<Rightarrow> FlightDescriptor \<Rightarrow> BaseServer
     \<Rightarrow> (error + FlightInfo) \<times> BaseServer" where
  "BaseServer_GetFlightInfoSqlInfo SerializeSchema cmd desc b =
     (if len_map (sqlInfoToResult b) = 0 then
        (Inl (StatusError NotFound ''no sql information available''), b)
      else
        (Inr \<lparr>Schema = SerializeSchema schema_ref_SqlInfo (the_Alloc b),
              FlightDescriptor = Some desc,
              Endpoint = [\<lparr>Ticket = Some \<lparr>Ticket_Ticket = Cmd desc\<rparr>, Location = []\<rparr>],
              TotalRecords = - 1,
              TotalBytes = - 1\<rparr>,
         default_Alloc b))"

text \<open>
  The loop of \<^verbatim>\<open>DoGetSqlInfo\<close> over \<^verbatim>\<open>cmd.GetInfo()\<close>: the two field builders are the
  state; the first id without a registered value ends the call with that id.
\<close>

fun fill_SqlInfo ::
  "SqlInfoResultMap \<Rightarrow> 32 word list \<Rightarrow> 32 word list \<Rightarrow> DenseUnion
     \<Rightarrow> 32 word + (32 word list \<times> DenseUnion)" where
  "fill_SqlInfo m [] names vals = Inr (names, vals)"
| "fill_SqlInfo m (info # infos) names vals =
     (case index_map m info of
        None \<Rightarrow> Inl info
      | Some val \<Rightarrow> fill_SqlInfo m infos (names @ [info]) (sqlInfoResultBuilder_Append vals val))"

definition no_information_msg :: "32 word \<Rightarrow> string" where
  "no_information_msg info = ''no information for sql info number '' @ fmt_d (unat info)"

text \<open>
  \<^verbatim>\<open>func (b *BaseServer) DoGetSqlInfo(_, cmd GetSqlInfo)\<close>. The record builder starts
  empty on \<^verbatim>\<open>schema_ref.SqlInfo\<close>; \<^verbatim>\<open>NewRecord\<close> takes the two built columns. The
  \<^verbatim>\<open>debug.Assert\<close> is compiled out of a release build and changes no result. The
  returned channel is the list of chunks the streaming goroutine sends on it.
\<close>

definition BaseServer_DoGetSqlInfo ::
  "32 word list \<Rightarrow> BaseServer
     \<Rightarrow> (error + (ArrowSchema \<times> StreamChunk list)) \<times> BaseServer" where
  "BaseServer_DoGetSqlInfo cmd b =
     (case fill_SqlInfo (sqlInfoToResult b) cmd [] empty_DenseUnion of
        Inl info \<Rightarrow> (Inl (StatusError NotFound (no_information_msg info)), default_Alloc b)
      | Inr (names, vals) \<Rightarrow>
          (let batch = \<lparr>rec_schema = schema_ref_SqlInfo,
                        rec_columns = [Uint32Array names, DenseUnionArray vals]\<rparr>
           in case NewRecordReader schema_ref_SqlInfo [batch] of
                Inl e \<Rightarrow>
                  (Inl (StatusError Internal (''error producing record response: '' @ e)),
                   default_Alloc b)
              | Inr rdr \<Rightarrow>
                  (Inr (schema_ref_SqlInfo, StreamChunksFromReader rdr), default_Alloc b)))"

section \<open>Commands\<close>

record GetDBSchemas =
  Catalog :: "string option"
  DBSchemaFilterPattern :: "string option"

record GetTables =
  Tables_Catalog :: "string option"
  Tables_DBSchemaFilterPattern :: "string option"
  TableNameFilterPattern :: "string option"
  TableTypes :: "string list"
  IncludeSchema :: bool

text \<open>
  Modelled from the spec: \<^verbatim>\<open>TableRef\<close>, \<^verbatim>\<open>CrossTableRef\<close> and the four adapters
  \<^verbatim>\<open>pkToTableRef\<close>, \<^verbatim>\<open>exkToTableRef\<close>, \<^verbatim>\<open>impkToTableRef\<close> and \<^verbatim>\<open>toCrossTableRef\<close> are
  outside the given sources. A table reference is a catalog, a schema and a table name;
  the key commands carry one such triple and the cross reference two, and the adapters
  hand them on as they are.
\<close>

record TableRef =
  Ref_Catalog :: "string option"
  Ref_DBSchema :: "string option"
  Ref_Table :: string

record CrossTableRef =
  PKRef :: TableRef
  FKRef :: TableRef

text \<open>
  What \<^verbatim>\<open>anycmd.UnmarshalNew()\<close> can yield: a message of the FlightSQL protocol, or any
  other message type registered with the protobuf runtime, kept by its type URL.
\<close>

datatype Message =
    CommandStatementQuery string
  | CommandPreparedStatementQuery bytes
  | CommandStatementUpdate string
  | CommandPreparedStatementUpdate bytes
  | CommandGetCatalogs
  | CommandGetDbSchemas GetDBSchemas
  | CommandGetTables GetTables
  | CommandGetTableTypes
  | CommandGetXdbcTypeInfo "32 word option"
  | CommandGetSqlInfo "32 word list"
  | CommandGetPrimaryKeys TableRef
  | CommandGetExportedKeys TableRef
  | CommandGetImportedKeys TableRef
  | CommandGetCrossReference CrossTableRef
  | TicketStatementQuery bytes
  | ActionCreatePreparedStatementRequest string
  | ActionClosePreparedStatementRequest bytes
  | OtherMessage string

definition pkToTableRef :: "TableRef \<Rightarrow> TableRef" where
  "pkToTableRef cmd = cmd"

definition exkToTableRef :: "TableRef \<Rightarrow> TableRef" where
  "exkToTableRef cmd = cmd"

definition impkToTableRef :: "TableRef \<Rightarrow> TableRef" where
  "impkToTableRef cmd = cmd"

definition toCrossTableRef :: "CrossTableRef \<Rightarrow> CrossTableRef" where
  "toCrossTableRef cmd = cmd"

text \<open>
  The protobuf runtime, outside the repository: \<^verbatim>\<open>proto.Unmarshal\<close> into an
  \<^verbatim>\<open>anypb.Any\<close> (a type URL and a value), \<^verbatim>\<open>Any.UnmarshalNew\<close>, and \<^verbatim>\<open>proto.Marshal\<close>
  of a \<^verbatim>\<open>DoPutUpdateResult\<close>, given by its record count. A failure carries the text of
  \<^verbatim>\<open>err.Error()\<close>.
\<close>

record proto =
  Unmarshal :: "bytes \<Rightarrow> string + (string \<times> bytes)"
  UnmarshalNew :: "string \<times> bytes \<Rightarrow> string + Message"
  Marshal :: "64 word \<Rightarrow> string + bytes"

section \<open>The handler interface\<close>

record ActionCreatePreparedStatementResult =
  Handle :: bytes
  DatasetSchema :: "ArrowSchema option"
  ParameterSchema :: "ArrowSchema option"

record PutResult =
  Put_AppMetadata :: bytes

text \<open>
  A \<^verbatim>\<open>flight.MessageReader\<close> as \<^verbatim>\<open>DoPut\<close> uses it: the descriptor that came with the
  schema message (nil when there was none) and the uploaded batches.
\<close>

record MessageReader =
  LatestFlightDescriptor :: "FlightDescriptor option"
  Batches :: "Record list"

type_synonym 's GetFlightInfo_result = "(error + FlightInfo) \<times> 's"
type_synonym 's DoGet_result = "(error + (ArrowSchema \<times> StreamChunk list)) \<times> 's"

text \<open>
  The \<^verbatim>\<open>Server\<close> interface. A method acts on the state \<open>'s\<close> of the value behind the
  interface and returns the new state with its results; the context argument is left
  out. A \<^verbatim>\<open>DoGet\<close> method returns its error, or its schema with the channel. The
  parameter-binding method is given the outcome of \<^verbatim>\<open>WriteMetadata\<close> per message and
  returns the messages it wrote.
\<close>

record 's Server =
  GetFlightInfoStatement :: "string \<Rightarrow> FlightDescriptor \<Rightarrow> 's \<Rightarrow> 's GetFlightInfo_result"
  DoGetStatement :: "bytes \<Rightarrow> 's \<Rightarrow> 's DoGet_result"
  GetFlightInfoPreparedStatement :: "bytes \<Rightarrow> FlightDescriptor \<Rightarrow> 's \<Rightarrow> 's GetFlightInfo_result"
  DoGetPreparedStatement :: "bytes \<Rightarrow> 's \<Rightarrow> 's DoGet_result"
  GetFlightInfoCatalogs :: "FlightDescriptor \<Rightarrow> 's \<Rightarrow> 's GetFlightInfo_result"
  DoGetCatalogs :: "'s \<Rightarrow> 's DoGet_result"
  GetFlightInfoXdbcTypeInfo ::
    "32 word option \<Rightarrow> FlightDescriptor \<Rightarrow> 's \<Rightarrow> 's GetFlightInfo_result"
  DoGetXdbcTypeInfo :: "32 word option \<Rightarrow> 's \<Rightarrow> 's DoGet_result"
  GetFlightInfoSqlInfo ::
    "32 word list \<Rightarrow> FlightDescriptor \<Rightarrow> 's \<Rightarrow> 's GetFlightInfo_result"
  DoGetSqlInfo :: "32 word list \<Rightarrow> 's \<Rightarrow> 's DoGet_result"
  GetFlightInfoSchemas :: "GetDBSchemas \<Rightarrow> FlightDescriptor \<Rightarrow> 's \<Rightarrow> 's GetFlightInfo_result"
  DoGetDBSchemas :: "GetDBSchemas \<Rightarrow> 's \<Rightarrow> 's DoGet_result"
  GetFlightInfoTables :: "GetTables \<Rightarrow> FlightDescriptor \<Rightarrow> 's \<Rightarrow> 's GetFlightInfo_result"
  DoGetTables :: "GetTables \<Rightarrow> 's \<Rightarrow> 's DoGet_result"
  GetFlightInfoTableTypes :: "FlightDescriptor \<Rightarrow> 's \<Rightarrow> 's GetFlightInfo_result"
  DoGetTableTypes :: "'s \<Rightarrow> 's DoGet_result"
  GetFlightInfoPrimaryKeys :: "TableRef \<Rightarrow> FlightDescriptor \<Rightarrow> 's \<Rightarrow> 's GetFlightInfo_result"
  DoGetPrimaryKeys :: "TableRef \<Rightarrow> 's \<Rightarrow> 's DoGet_result"
  GetFlightInfoExportedKeys :: "TableRef \<Rightarrow> FlightDescriptor \<Rightarrow> 's \<Rightarrow> 's GetFlightInfo_result"
  DoGetExportedKeys :: "TableRef \<Rightarrow> 's \<Rightarrow> 's DoGet_result"
  GetFlightInfoImportedKeys :: "TableRef \<Rightarrow> FlightDescriptor \<Rightarrow> 's \<Rightarrow> 's GetFlightInfo_result"
  DoGetImportedKeys :: "TableRef \<Rightarrow> 's \<Rightarrow> 's DoGet_result"
  GetFlightInfoCrossReference ::
    "CrossTableRef \<Rightarrow> FlightDescriptor \<Rightarrow> 's \<Rightarrow> 's GetFlightInfo_result"
  DoGetCrossReference :: "CrossTableRef \<Rightarrow> 's \<Rightarrow> 's DoGet_result"
  DoPutCommandStatementUpdate :: "string \<Rightarrow> 's \<Rightarrow> (error + 64 word) \<times> 's"
  CreatePreparedStatement ::
    "string \<Rightarrow> 's \<Rightarrow> (error + ActionCreatePreparedStatementResult) \<times> 's"
  ClosePreparedStatement :: "bytes \<Rightarrow> 's \<Rightarrow> error option \<times> 's"
  DoPutPreparedStatementQuery ::
    "bytes \<Rightarrow> MessageReader \<Rightarrow> (bytes \<Rightarrow> error option) \<Rightarrow> 's
       \<Rightarrow> (error option \<times> bytes list) \<times> 's"
  DoPutPreparedStatementUpdate :: "bytes \<Rightarrow> MessageReader \<Rightarrow> 's \<Rightarrow> (error + 64 word) \<times> 's"

section \<open>The default methods of \<^verbatim>\<open>BaseServer\<close>\<close>

text \<open>
  Every method of \<^verbatim>\<open>BaseServer\<close> but the two capability handlers has a value receiver,
  ignores its arguments and returns a status error; the results returned beside the
  error are nil or zero.
\<close>

definition BaseServer_GetFlightInfoStatement :: "string \<Rightarrow> FlightDescriptor \<Rightarrow> error + FlightInfo" where
  "BaseServer_GetFlightInfoStatement a b =
     Inl (StatusError Unimplemented ''GetFlightInfoStatement not implemented'')"

definition BaseServer_DoGetStatement :: "bytes \<Rightarrow> error + (ArrowSchema \<times> StreamChunk list)" where
  "BaseServer_DoGetStatement a =
     Inl (StatusError Unimplemented ''DoGetStatement not implemented'')"

definition BaseServer_GetFlightInfoPreparedStatement :: "bytes \<Rightarrow> FlightDescriptor \<Rightarrow> error + FlightInfo" where
  "BaseServer_GetFlightInfoPreparedStatement a b =
     Inl (StatusError Unimplemented ''GetFlightInfoPreparedStatement not implemented'')"

definition BaseServer_DoGetPreparedStatement :: "bytes \<Rightarrow> error + (ArrowSchema \<times> StreamChunk list)" where
  "BaseServer_DoGetPreparedStatement a =
     Inl (StatusError Unimplemented ''DoGetPreparedStatement not implemented'')"

definition BaseServer_GetFlightInfoCatalogs :: "FlightDescriptor \<Rightarrow> error + FlightInfo" where
  "BaseServer_GetFlightInfoCatalogs a =
     Inl (StatusError Unimplemented ''GetFlightInfoCatalogs not implemented'')"

definition BaseServer_DoGetCatalogs :: "error + (ArrowSchema \<times> StreamChunk list)" where
  "BaseServer_DoGetCatalogs =
     Inl (StatusError Unimplemented ''DoGetCatalogs not implemented'')"

definition BaseServer_GetFlightInfoXdbcTypeInfo :: "32 word option \<Rightarrow> FlightDescriptor \<Rightarrow> error + FlightInfo" where
  "BaseServer_GetFlightInfoXdbcTypeInfo a b =
     Inl (StatusError Unimplemented ''GetFlightInfoXdbcTypeInfo not implemented'')"

definition BaseServer_DoGetXdbcTypeInfo :: "32 word option \<Rightarrow> error + (ArrowSchema \<times> StreamChunk list)" where
  "BaseServer_DoGetXdbcTypeInfo a =
     Inl (StatusError Unimplemented ''DoGetXdbcTypeInfo not implemented'')"

definition BaseServer_GetFlightInfoSchemas :: "GetDBSchemas \<Rightarrow> FlightDescriptor \<Rightarrow> error + FlightInfo" where
  "BaseServer_GetFlightInfoSchemas a b =
     Inl (StatusError Unimplemented ''GetFlightInfoSchemas not implemented'')"

definition BaseServer_DoGetDBSchemas :: "GetDBSchemas \<Rightarrow> error + (ArrowSchema \<times> StreamChunk list)" where
  "BaseServer_DoGetDBSchemas a =
     Inl (StatusError Unimplemented ''DoGetDBSchemas not implemented'')"

definition BaseServer_GetFlightInfoTables :: "GetTables \<Rightarrow> FlightDescriptor \<Rightarrow> error + FlightInfo" where
  "BaseServer_GetFlightInfoTables a b =
     Inl (StatusError Unimplemented ''GetFlightInfoTables not implemented'')"

definition BaseServer_DoGetTables :: "GetTables \<Rightarrow> error + (ArrowSchema \<times> StreamChunk list)" where
  "BaseServer_DoGetTables a =
     Inl (StatusError Unimplemented ''DoGetTables not implemented'')"

definition BaseServer_GetFlightInfoTableTypes :: "FlightDescriptor \<Rightarrow> error + FlightInfo" where
  "BaseServer_GetFlightInfoTableTypes a =
     Inl (StatusError Unimplemented ''GetFlightInfoTableTypes not implemented'')"

definition BaseServer_DoGetTableTypes :: "error + (ArrowSchema \<times> StreamChunk list)" where
  "BaseServer_DoGetTableTypes =
     Inl (StatusError Unimplemented ''DoGetTableTypes not implemented'')"

definition BaseServer_GetFlightInfoPrimaryKeys :: "TableRef \<Rightarrow> FlightDescriptor \<Rightarrow> error + FlightInfo" where
  "BaseServer_GetFlightInfoPrimaryKeys a b =
     Inl (StatusError Unimplemented ''GetFlightInfoPrimaryKeys not implemented'')"

definition BaseServer_DoGetPrimaryKeys :: "TableRef \<Rightarrow> error + (ArrowSchema \<times> StreamChunk list)" where
  "BaseServer_DoGetPrimaryKeys a =
     Inl (StatusError Unimplemented ''DoGetPrimaryKeys not implemented'')"

definition BaseServer_GetFlightInfoExportedKeys :: "TableRef \<Rightarrow> FlightDescriptor \<Rightarrow> error + FlightInfo" where
  "BaseServer_GetFlightInfoExportedKeys a b =
     Inl (StatusError Unimplemented ''GetFlightInfoExportedKeys not implemented'')"

definition BaseServer_DoGetExportedKeys :: "TableRef \<Rightarrow> error + (ArrowSchema \<times> StreamChunk list)" where
  "BaseServer_DoGetExportedKeys a =
     Inl (StatusError Unimplemented ''DoGetExportedKeys not implemented'')"

definition BaseServer_GetFlightInfoImportedKeys :: "TableRef \<Rightarrow> FlightDescriptor \<Rightarrow> error + FlightInfo" where
  "BaseServer_GetFlightInfoImportedKeys a b =
     Inl (StatusError Unimplemented ''GetFlightInfoImportedKeys not implemented'')"

definition BaseServer_DoGetImportedKeys :: "TableRef \<Rightarrow> error + (ArrowSchema \<times> StreamChunk list)" where
  "BaseServer_DoGetImportedKeys a =
     Inl (StatusError Unimplemented ''DoGetImportedKeys not implemented'')"

definition BaseServer_GetFlightInfoCrossReference :: "CrossTableRef \<Rightarrow> FlightDescriptor \<Rightarrow> error + FlightInfo" where
  "BaseServer_GetFlightInfoCrossReference a b =
     Inl (StatusError Unimplemented ''GetFlightInfoCrossReference not implemented'')"

definition BaseServer_DoGetCrossReference :: "CrossTableRef \<Rightarrow> error + (ArrowSchema \<times> StreamChunk list)" where
  "BaseServer_DoGetCrossReference a =
     Inl (StatusError Unimplemented ''DoGetCrossReference not implemented'')"

definition BaseServer_CreatePreparedStatement :: "string \<Rightarrow> error + ActionCreatePreparedStatementResult" where
  "BaseServer_CreatePreparedStatement a =
     Inl (StatusError Unimplemented ''CreatePreparedStatement not implemented'')"

definition BaseServer_ClosePreparedStatement :: "bytes \<Rightarrow> error option" where
  "BaseServer_ClosePreparedStatement a =
     Some (StatusError Unimplemented ''ClosePreparedStatement not implemented'')"

definition BaseServer_DoPutCommandStatementUpdate :: "string \<Rightarrow> error + 64 word" where
  "BaseServer_DoPutCommandStatementUpdate a =
     Inl (StatusError Unimplemented ''DoPutCommandStatementUpdate not implemented'')"

definition BaseServer_DoPutPreparedStatementQuery :: "bytes \<Rightarrow> MessageReader \<Rightarrow> (bytes \<Rightarrow> error option) \<Rightarrow> error option" where
  "BaseServer_DoPutPreparedStatementQuery a b c =
     Some (StatusError Unimplemented ''DoPutPreparedStatementQuery not implemented'')"

definition BaseServer_DoPutPreparedStatementUpdate :: "bytes \<Rightarrow> MessageReader \<Rightarrow> error + 64 word" where
  "BaseServer_DoPutPreparedStatementUpdate a b =
     Inl (StatusError Unimplemented ''DoPutPreparedStatementUpdate not implemented'')"

text \<open>
  \<^verbatim>\<open>var _ Server = (*BaseServer)(nil)\<close>: the base server behind the interface. Only the
  two capability handlers have the pointer receiver and can change the server.
\<close>

definition BaseServer_Server :: "(ArrowSchema \<Rightarrow> Allocator \<Rightarrow> bytes) \<Rightarrow> BaseServer Server" where
  "BaseServer_Server SerializeSchema =
     \<lparr>GetFlightInfoStatement = (\<lambda>cmd desc b. (BaseServer_GetFlightInfoStatement cmd desc, b)),
      DoGetStatement = (\<lambda>cmd b. (BaseServer_DoGetStatement cmd, b)),
      GetFlightInfoPreparedStatement =
        (\<lambda>cmd desc b. (BaseServer_GetFlightInfoPreparedStatement cmd desc, b)),
      DoGetPreparedStatement = (\<lambda>cmd b. (BaseServer_DoGetPreparedStatement cmd, b)),
      GetFlightInfoCatalogs = (\<lambda>desc b. (BaseServer_GetFlightInfoCatalogs desc, b)),
      DoGetCatalogs = (\<lambda>b. (BaseServer_DoGetCatalogs, b)),
      GetFlightInfoXdbcTypeInfo = (\<lambda>cmd desc b. (BaseServer_GetFlightInfoXdbcTypeInfo cmd desc, b)),
      DoGetXdbcTypeInfo = (\<lambda>cmd b. (BaseServer_DoGetXdbcTypeInfo cmd, b)),
      GetFlightInfoSqlInfo = BaseServer_GetFlightInfoSqlInfo SerializeSchema,
      DoGetSqlInfo = BaseServer_DoGetSqlInfo,
      GetFlightInfoSchemas = (\<lambda>cmd desc b. (BaseServer_GetFlightInfoSchemas cmd desc, b)),
      DoGetDBSchemas = (\<lambda>cmd b. (BaseServer_DoGetDBSchemas cmd, b)),
      GetFlightInfoTables = (\<lambda>cmd desc b. (BaseServer_GetFlightInfoTables cmd desc, b)),
      DoGetTables = (\<lambda>cmd b. (BaseServer_DoGetTables cmd, b)),
      GetFlightInfoTableTypes = (\<lambda>desc b. (BaseServer_GetFlightInfoTableTypes desc, b)),
      DoGetTableTypes = (\<lambda>b. (BaseServer_DoGetTableTypes, b)),
      GetFlightInfoPrimaryKeys = (\<lambda>cmd desc b. (BaseServer_GetFlightInfoPrimaryKeys cmd desc, b)),
      DoGetPrimaryKeys = (\<lambda>cmd b. (BaseServer_DoGetPrimaryKeys cmd, b)),
      GetFlightInfoExportedKeys = (\<lambda>cmd desc b. (BaseServer_GetFlightInfoExportedKeys cmd desc, b)),
      DoGetExportedKeys = (\<lambda>cmd b. (BaseServer_DoGetExportedKeys cmd, b)),
      GetFlightInfoImportedKeys = (\<lambda>cmd desc b. (BaseServer_GetFlightInfoImportedKeys cmd desc, b)),
      DoGetImportedKeys = (\<lambda>cmd b. (BaseServer_DoGetImportedKeys cmd, b)),
      GetFlightInfoCrossReference =
        (\<lambda>cmd desc b. (BaseServer_GetFlightInfoCrossReference cmd desc, b)),
      DoGetCrossReference = (\<lambda>cmd b. (BaseServer_DoGetCrossReference cmd, b)),
      DoPutCommandStatementUpdate = (\<lambda>cmd b. (BaseServer_DoPutCommandStatementUpdate cmd, b)),
      CreatePreparedStatement = (\<lambda>cmd b. (BaseServer_CreatePreparedStatement cmd, b)),
      ClosePreparedStatement = (\<lambda>cmd b. (BaseServer_ClosePreparedStatement cmd, b)),
      DoPutPreparedStatementQuery =
        (\<lambda>cmd rdr wr b. ((BaseServer_DoPutPreparedStatementQuery cmd rdr wr, []), b)),
      DoPutPreparedStatementUpdate =
        (\<lambda>cmd rdr b. (BaseServer_DoPutPreparedStatementUpdate cmd rdr, b))\<rparr>"

section \<open>The router: \<^verbatim>\<open>GetFlightInfo\<close>\<close>

text \<open>The type switch of \<^verbatim>\<open>GetFlightInfo\<close> and the return that follows it.\<close>

fun GetFlightInfo_switch ::
  "'s Server \<Rightarrow> Message \<Rightarrow> FlightDescriptor \<Rightarrow> 's \<Rightarrow> 's GetFlightInfo_result" where
  "GetFlightInfo_switch srv (CommandStatementQuery cmd) request s =
     GetFlightInfoStatement srv cmd request s"
| "GetFlightInfo_switch srv (CommandPreparedStatementQuery cmd) request s =
     GetFlightInfoPreparedStatement srv cmd request s"
| "GetFlightInfo_switch srv CommandGetCatalogs request s =
     GetFlightInfoCatalogs srv request s"
| "GetFlightInfo_switch srv (CommandGetDbSchemas cmd) request s =
     GetFlightInfoSchemas srv cmd request s"
| "GetFlightInfo_switch srv (CommandGetTables cmd) request s =
     GetFlightInfoTables srv cmd request s"
| "GetFlightInfo_switch srv CommandGetTableTypes request s =
     GetFlightInfoTableTypes srv request s"
| "GetFlightInfo_switch srv (CommandGetXdbcTypeInfo cmd) request s =
     GetFlightInfoXdbcTypeInfo srv cmd request s"
| "GetFlightInfo_switch srv (CommandGetSqlInfo cmd) request s =
     GetFlightInfoSqlInfo srv cmd request s"
| "GetFlightInfo_switch srv (CommandGetPrimaryKeys cmd) request s =
     GetFlightInfoPrimaryKeys srv (pkToTableRef cmd) request s"
| "GetFlightInfo_switch srv (CommandGetExportedKeys cmd) request s =
     GetFlightInfoExportedKeys srv (exkToTableRef cmd) request s"
| "GetFlightInfo_switch srv (CommandGetImportedKeys cmd) request s =
     GetFlightInfoImportedKeys srv (impkToTableRef cmd) request s"
| "GetFlightInfo_switch srv (CommandGetCrossReference cmd) request s =
     GetFlightInfoCrossReference srv (toCrossTableRef cmd) request s"
| "GetFlightInfo_switch srv _ request s =
     (Inl (StatusError InvalidArgument ''requested command is invalid''), s)"

definition GetFlightInfo ::
  "proto \<Rightarrow> 's Server \<Rightarrow> FlightDescriptor \<Rightarrow> 's \<Rightarrow> 's GetFlightInfo_result" where
  "GetFlightInfo p srv request s =
     (case Unmarshal p (Cmd request) of
        Inl e \<Rightarrow> (Inl (StatusError InvalidArgument (''unable to parse command: '' @ e)), s)
      | Inr anycmd \<Rightarrow>
          (case UnmarshalNew p anycmd of
             Inl e \<Rightarrow>
               (Inl (StatusError InvalidArgument
                       (''could not unmarshal Any to a command type: '' @ e)), s)
           | Inr cmd \<Rightarrow> GetFlightInfo_switch srv cmd request s))"

section \<open>The router and the streaming adapter: \<^verbatim>\<open>DoGet\<close>\<close>

text \<open>
  The type switch of \<^verbatim>\<open>DoGet\<close>. Its \<^verbatim>\<open>default\<close> case returns at once with the status
  error, as the check \<^verbatim>\<open>if err != nil\<close> after the switch does for a handler's error.
\<close>

fun DoGet_switch :: "'s Server \<Rightarrow> Message \<Rightarrow> 's \<Rightarrow> 's DoGet_result" where
  "DoGet_switch srv (TicketStatementQuery cmd) s = DoGetStatement srv cmd s"
| "DoGet_switch srv (CommandPreparedStatementQuery cmd) s = DoGetPreparedStatement srv cmd s"
| "DoGet_switch srv CommandGetCatalogs s = DoGetCatalogs srv s"
| "DoGet_switch srv (CommandGetDbSchemas cmd) s = DoGetDBSchemas srv cmd s"
| "DoGet_switch srv (CommandGetTables cmd) s = DoGetTables srv cmd s"
| "DoGet_switch srv CommandGetTableTypes s = DoGetTableTypes srv s"
| "DoGet_switch srv (CommandGetXdbcTypeInfo cmd) s = DoGetXdbcTypeInfo srv cmd s"
| "DoGet_switch srv (CommandGetSqlInfo cmd) s = DoGetSqlInfo srv cmd s"
| "DoGet_switch srv (CommandGetPrimaryKeys cmd) s = DoGetPrimaryKeys srv (pkToTableRef cmd) s"
| "DoGet_switch srv (CommandGetExportedKeys cmd) s = DoGetExportedKeys srv (exkToTableRef cmd) s"
| "DoGet_switch srv (CommandGetImportedKeys cmd) s = DoGetImportedKeys srv (impkToTableRef cmd) s"
| "DoGet_switch srv (CommandGetCrossReference cmd) s =
     DoGetCrossReference srv (toCrossTableRef cmd) s"
| "DoGet_switch srv _ s = (Inl (StatusError InvalidArgument ''requested command is invalid''), s)"

text \<open>
  What the adapter does to the record writer and to the chunks, in order. A write
  carries its result: \<open>None\<close> when the batch went out on the stream.
\<close>

datatype event =
    NewRecordWriter ArrowSchema
  | SetFlightDescriptor "FlightDescriptor option"
  | WriteWithAppMetadata "Record option" bytes "error option"
  | Release Record
  | Close

text \<open>
  The record writer is outside the given sources: the result of a write is a parameter,
  a function of all that happened before it and of the arguments of the call.
\<close>

type_synonym writer = "event list \<Rightarrow> Record option \<Rightarrow> bytes \<Rightarrow> error option"

text \<open>
  The loop \<^verbatim>\<open>for chunk := range cc\<close>. \<open>err\<close> is the named result of \<^verbatim>\<open>DoGet\<close>, \<open>tr\<close> the
  events so far. The loop ends when the channel is closed and empty, and each
  \<^verbatim>\<open>return err\<close> returns that variable. \<^verbatim>\<open>chunk.Data.Release()\<close> on a nil \<^verbatim>\<open>Data\<close>
  panics.
\<close>

fun DoGet_loop ::
  "writer \<Rightarrow> error option \<Rightarrow> event list \<Rightarrow> StreamChunk list
     \<Rightarrow> error option outcome \<times> event list" where
  "DoGet_loop wr err tr [] = (Returns err, tr)"
| "DoGet_loop wr err tr (chunk # cc) =
     (if Err chunk \<noteq> None then (Returns err, tr)
      else
        (let tr1 = tr @ [SetFlightDescriptor (Desc chunk)];
             err1 = wr tr1 (Data chunk) (AppMetadata chunk);
             tr2 = tr1 @ [WriteWithAppMetadata (Data chunk) (AppMetadata chunk) err1]
         in if err1 \<noteq> None then (Returns err1, tr2)
            else (case Data chunk of
                    None \<Rightarrow> (Panics ''invalid memory address or nil pointer dereference'', tr2)
                  | Some batch \<Rightarrow> DoGet_loop wr err1 (tr2 @ [Release batch]) cc)))"

text \<open>
  The part of \<^verbatim>\<open>DoGet\<close> after the switch: a handler's error is returned as it is;
  otherwise the writer is made, the loop runs with \<open>err = nil\<close>, and the deferred
  \<^verbatim>\<open>wr.Close()\<close> runs last on every way out.
\<close>

definition DoGet_stream ::
  "writer \<Rightarrow> error + (ArrowSchema \<times> StreamChunk list) \<Rightarrow> error option outcome \<times> event list" where
  "DoGet_stream wr res =
     (case res of
        Inl err \<Rightarrow> (Returns (Some err), [])
      | Inr (sc, cc) \<Rightarrow>
          (case DoGet_loop wr None [NewRecordWriter sc] cc of
             (r, tr) \<Rightarrow> (r, tr @ [Close])))"

definition DoGet ::
  "proto \<Rightarrow> 's Server \<Rightarrow> writer \<Rightarrow> Ticket \<Rightarrow> 's
     \<Rightarrow> (error option outcome \<times> event list) \<times> 's" where
  "DoGet p srv wr request s =
     (case Unmarshal p (Ticket_Ticket request) of
        Inl e \<Rightarrow>
          ((Returns (Some (StatusError InvalidArgument (''unable to parse ticket: '' @ e))), []), s)
      | Inr anycmd \<Rightarrow>
          (case UnmarshalNew p anycmd of
             Inl e \<Rightarrow>
               ((Returns (Some (StatusError InvalidArgument
                                  (''unable to unmarshal proto.Any: '' @ e))), []), s)
           | Inr cmd \<Rightarrow>
               (case DoGet_switch srv cmd s of
                  (res, s') \<Rightarrow> (DoGet_stream wr res, s'))))"

text \<open>How often a batch is released in a run of the adapter.\<close>

definition releases :: "Record \<Rightarrow> event list \<Rightarrow> nat" where
  "releases batch tr = count_list tr (Release batch)"

section \<open>The router: \<^verbatim>\<open>DoPut\<close>\<close>

text \<open>
  The reply to an update: the marshalled \<^verbatim>\<open>DoPutUpdateResult\<close> goes out in one
  \<^verbatim>\<open>PutResult\<close>. The result pairs the returned error with the messages handed to
  \<^verbatim>\<open>stream.Send\<close>, whose outcome is the parameter \<open>Send\<close>.
\<close>

definition send_update_result ::
  "proto \<Rightarrow> (PutResult \<Rightarrow> error option) \<Rightarrow> 64 word \<Rightarrow> error option \<times> PutResult list" where
  "send_update_result p Send recordCount =
     (case Marshal p recordCount of
        Inl e \<Rightarrow> (Some (StatusError Internal (''failed to marshal PutResult: '' @ e)), [])
      | Inr md \<Rightarrow> (Send \<lparr>Put_AppMetadata = md\<rparr>, [\<lparr>Put_AppMetadata = md\<rparr>]))"

text \<open>\<^verbatim>\<open>putMetadataWriter.WriteMetadata\<close>\<close>

definition WriteMetadata :: "(PutResult \<Rightarrow> error option) \<Rightarrow> bytes \<Rightarrow> error option" where
  "WriteMetadata Send appMetadata = Send \<lparr>Put_AppMetadata = appMetadata\<rparr>"

fun DoPut_switch ::
  "proto \<Rightarrow> 's Server \<Rightarrow> (PutResult \<Rightarrow> error option) \<Rightarrow> Message \<Rightarrow> MessageReader \<Rightarrow> 's
     \<Rightarrow> (error option \<times> PutResult list) \<times> 's" where
  "DoPut_switch p srv Send (CommandStatementUpdate cmd) rdr s =
     (case DoPutCommandStatementUpdate srv cmd s of
        (Inl err, s') \<Rightarrow> ((Some err, []), s')
      | (Inr recordCount, s') \<Rightarrow> (send_update_result p Send recordCount, s'))"
| "DoPut_switch p srv Send (CommandPreparedStatementQuery cmd) rdr s =
     (case DoPutPreparedStatementQuery srv cmd rdr (WriteMetadata Send) s of
        ((err, written), s') \<Rightarrow> ((err, map (\<lambda>m. \<lparr>Put_AppMetadata = m\<rparr>) written), s'))"
| "DoPut_switch p srv Send (CommandPreparedStatementUpdate cmd) rdr s =
     (case DoPutPreparedStatementUpdate srv cmd rdr s of
        (Inl err, s') \<Rightarrow> ((Some err, []), s')
      | (Inr recordCount, s') \<Rightarrow> (send_update_result p Send recordCount, s'))"
| "DoPut_switch p srv Send _ rdr s =
     ((Some (StatusError InvalidArgument ''the defined request is invalid''), []), s)"

text \<open>
  \<^verbatim>\<open>DoPut\<close>. The first argument after the stream's \<open>Send\<close> is what
  \<^verbatim>\<open>flight.NewRecordReader\<close> made of the input stream. \<^verbatim>\<open>request.Cmd\<close> reads through
  the descriptor pointer, which panics when no descriptor came.
\<close>

definition DoPut ::
  "proto \<Rightarrow> 's Server \<Rightarrow> (PutResult \<Rightarrow> error option) \<Rightarrow> string + MessageReader \<Rightarrow> 's
     \<Rightarrow> (error option \<times> PutResult list) outcome \<times> 's" where
  "DoPut p srv Send stream s =
     (case stream of
        Inl e \<Rightarrow>
          (Returns (Some (StatusError InvalidArgument (''failed to read input stream: '' @ e)), []),
           s)
      | Inr rdr \<Rightarrow>
          (case LatestFlightDescriptor rdr of
             None \<Rightarrow> (Panics ''invalid memory address or nil pointer dereference'', s)
           | Some request \<Rightarrow>
               (case Unmarshal p (Cmd request) of
                  Inl e \<Rightarrow>
                    (Returns (Some (StatusError InvalidArgument
                                      (''unable to parse command: '' @ e)), []), s)
                | Inr anycmd \<Rightarrow>
                    (case UnmarshalNew p anycmd of
                       Inl e \<Rightarrow>
                         (Returns (Some (StatusError InvalidArgument
                            (''could not unmarshal google.protobuf.Any: '' @ e)), []), s)
                     | Inr cmd \<Rightarrow>
                         (case DoPut_switch p srv Send cmd rdr s of
                            (r, s') \<Rightarrow> (Returns r, s'))))))"

section \<open>Dispatch sets, registered ids and decoded rows\<close>

text \<open>The commands the type switch of \<^verbatim>\<open>GetFlightInfo\<close> has a case for.\<close>

fun GetFlightInfo_dispatches :: "Message \<Rightarrow> bool" where
  "GetFlightInfo_dispatches (CommandStatementQuery _) = True"
| "GetFlightInfo_dispatches (CommandPreparedStatementQuery _) = True"
| "GetFlightInfo_dispatches CommandGetCatalogs = True"
| "GetFlightInfo_dispatches (CommandGetDbSchemas _) = True"
| "GetFlightInfo_dispatches (CommandGetTables _) = True"
| "GetFlightInfo_dispatches CommandGetTableTypes = True"
| "GetFlightInfo_dispatches (CommandGetXdbcTypeInfo _) = True"
| "GetFlightInfo_dispatches (CommandGetSqlInfo _) = True"
| "GetFlightInfo_dispatches (CommandGetPrimaryKeys _) = True"
| "GetFlightInfo_dispatches (CommandGetExportedKeys _) = True"
| "GetFlightInfo_dispatches (CommandGetImportedKeys _) = True"
| "GetFlightInfo_dispatches (CommandGetCrossReference _) = True"
| "GetFlightInfo_dispatches _ = False"

text \<open>The commands the type switch of \<^verbatim>\<open>DoGet\<close> has a case for.\<close>

fun DoGet_dispatches :: "Message \<Rightarrow> bool" where
  "DoGet_dispatches (TicketStatementQuery _) = True"
| "DoGet_dispatches (CommandPreparedStatementQuery _) = True"
| "DoGet_dispatches CommandGetCatalogs = True"
| "DoGet_dispatches (CommandGetDbSchemas _) = True"
| "DoGet_dispatches (CommandGetTables _) = True"
| "DoGet_dispatches CommandGetTableTypes = True"
| "DoGet_dispatches (CommandGetXdbcTypeInfo _) = True"
| "DoGet_dispatches (CommandGetSqlInfo _) = True"
| "DoGet_dispatches (CommandGetPrimaryKeys _) = True"
| "DoGet_dispatches (CommandGetExportedKeys _) = True"
| "DoGet_dispatches (CommandGetImportedKeys _) = True"
| "DoGet_dispatches (CommandGetCrossReference _) = True"
| "DoGet_dispatches _ = False"

text \<open>An id is registered with a value of one of the six shapes.\<close>

definition registered :: "SqlInfoResultMap \<Rightarrow> 32 word \<Rightarrow> bool" where
  "registered m i = (case index_map m i of None \<Rightarrow> False | Some v \<Rightarrow> permitted v)"

text \<open>
  A value under the type code of its shape, and the rows of a dense union decoded in
  order.
\<close>

definition coded :: "SqlInfoResult \<Rightarrow> (nat \<times> SqlInfoResult) option" where
  "coded v = map_option (\<lambda>c. (c, v)) (type_code v)"

definition union_rows :: "DenseUnion \<Rightarrow> (nat \<times> SqlInfoResult) option list" where
  "union_rows u = map (union_row u) [0..<length (typeCodes u)]"

text \<open>The error of a result, and an \<^verbatim>\<open>Unimplemented\<close> status whose message contains a name.\<close>

fun err_of :: "error + 'a \<Rightarrow> error option" where
  "err_of (Inl e) = Some e"
| "err_of (Inr _) = None"

fun Unimplemented_naming :: "string \<Rightarrow> error option \<Rightarrow> bool" where
  "Unimplemented_naming name (Some (StatusError c msg)) = (c = Unimplemented \<and> sublist name msg)"
| "Unimplemented_naming name _ = False"

section \<open>Values for worked examples\<close>

text \<open>
  A protobuf runtime for the examples: the command is read off the first byte of the
  value, and a record count below 128 is marshalled as field 1 of a message. A registry
  with capability 1 as a string and 2 as a bool. A serializer that yields no bytes. A
  server that embeds the base server and overrides the statement update with a count
  of 7.
\<close>

definition example_decode :: "bytes \<Rightarrow> Message" where
  "example_decode v =
     (if v = [1] then CommandStatementQuery ''SELECT 1''
      else if v = [2] then TicketStatementQuery [7]
      else if v = [3] then CommandGetCatalogs
      else if v = [4] then CommandStatementUpdate ''DELETE FROM t''
      else OtherMessage ''type.googleapis.com/google.protobuf.Empty'')"

definition example_proto :: proto where
  "example_proto =
     \<lparr>Unmarshal = (\<lambda>b. Inr (''type.googleapis.com/arrow.flight.protocol.sql'', b)),
      UnmarshalNew = (\<lambda>a. Inr (example_decode (snd a))),
      Marshal = (\<lambda>c. Inr [8, ucast c])\<rparr>"

definition example_BaseServer :: BaseServer where
  "example_BaseServer =
     \<lparr>sqlInfoToResult = Some (fmupd 2 (BoolVal True) (fmupd 1 (StringVal ''v1.0'') fmempty)),
      Alloc = None\<rparr>"

definition example_SerializeSchema :: "ArrowSchema \<Rightarrow> Allocator \<Rightarrow> bytes" where
  "example_SerializeSchema sc a = []"

definition example_update_Server :: "BaseServer Server" where
  "example_update_Server =
     (BaseServer_Server example_SerializeSchema)
       \<lparr>DoPutCommandStatementUpdate := (\<lambda>cmd b. (Inr 7, b))\<rparr>"

text \<open>The batches released in a run of the adapter, in order.\<close>

fun released :: "event list \<Rightarrow> Record list" where
  "released [] = []"
| "released (Release batch # tr) = batch # released tr"
| "released (_ # tr) = released tr"

section \<open>Registration: rejected shapes\<close>

text \<open>
  C6. A call to \<^verbatim>\<open>RegisterSqlInfo\<close> with a value whose dynamic type is none of the six
  permitted shapes returns an error whose message names the offending type and the id,
  and the server, its registry included, is the one before the call. This holds for a
  nil registry as well: the store is never reached.
\<close>

theorem RegisterSqlInfo_rejects_other_shapes:
  assumes "\<not> permitted result"
  shows "\<exists>msg. RegisterSqlInfo b ident result = Returns (Some (PlainError msg), b)
           \<and> msg = invalid_type_msg result ident
           \<and> sublist (fmt_T result) msg
           \<and> sublist (fmt_d (unat ident)) msg"
proof -
  have t: "sublist (fmt_T result) (invalid_type_msg result ident)"
    unfolding invalid_type_msg_def
    by (metis sublist_appendI append.assoc)
  have d: "sublist (fmt_d (unat ident)) (invalid_type_msg result ident)"
    unfolding invalid_type_msg_def
    by (metis sublist_append_leftI append.assoc)
  from assms t d show ?thesis
    by (simp add: RegisterSqlInfo_def)
qed

theorem RegisterSqlInfo_rejects_other_shapes_witness:
  "\<not> permitted (OtherVal ''float64'')
   \<and> RegisterSqlInfo \<lparr>sqlInfoToResult = Some fmempty, Alloc = None\<rparr> 7 (OtherVal ''float64'')
       = Returns (Some (PlainError ''invalid sql info type 'float64' registered for id: 7''),
                  \<lparr>sqlInfoToResult = Some fmempty, Alloc = None\<rparr>)"
  using RegisterSqlInfo_rejects_other_shapes
    [of "OtherVal ''float64''" "\<lparr>sqlInfoToResult = Some fmempty, Alloc = None\<rparr>" 7]
  by (simp add: invalid_type_msg_def fmt_d.simps)

section \<open>Registration: permitted shapes and the nil map\<close>

lemma RegisterSqlInfo_registers:
  "RegisterSqlInfo b ident result = Returns (None, b') \<Longrightarrow> registered (sqlInfoToResult b') ident"
  by (auto simp: RegisterSqlInfo_def registered_def split: if_splits option.splits)

lemma RegisterSqlInfo_keeps_registered:
  "RegisterSqlInfo b ident result = Returns (None, b') \<Longrightarrow> registered (sqlInfoToResult b) i
     \<Longrightarrow> registered (sqlInfoToResult b') i"
  by (auto simp: RegisterSqlInfo_def registered_def split: if_splits option.splits)

text \<open>
  C10. With a value of a permitted shape, \<^verbatim>\<open>RegisterSqlInfo\<close> stores the value under the
  id, over any value stored there before, and returns nil exactly when the map
  \<^verbatim>\<open>sqlInfoToResult\<close> is not nil. On a nil map, as in the zero-value \<^verbatim>\<open>BaseServer\<close>, the
  unguarded store panics. No other method of \<^verbatim>\<open>BaseServer\<close> assigns the map: the two
  capability handlers leave it as it is.
\<close>

theorem RegisterSqlInfo_needs_initialized_map:
  assumes "permitted result"
  shows "(\<forall>m. sqlInfoToResult b = Some m \<longrightarrow>
            RegisterSqlInfo b ident result
              = Returns (None, b\<lparr>sqlInfoToResult := Some (fmupd ident result m)\<rparr>)
            \<and> index_map (Some (fmupd ident result m)) ident = Some result)
       \<and> (sqlInfoToResult b = None \<longrightarrow>
            RegisterSqlInfo b ident result = Panics ''assignment to entry in nil map'')
       \<and> ((\<exists>b'. RegisterSqlInfo b ident result = Returns (None, b')) = (sqlInfoToResult b \<noteq> None))
       \<and> sqlInfoToResult zero_BaseServer = None
       \<and> sqlInfoToResult (snd (BaseServer_GetFlightInfoSqlInfo ser cmd desc b)) = sqlInfoToResult b
       \<and> sqlInfoToResult (snd (BaseServer_DoGetSqlInfo cmd b)) = sqlInfoToResult b"
  using assms
  by (auto simp: RegisterSqlInfo_def zero_BaseServer_def BaseServer_GetFlightInfoSqlInfo_def
      BaseServer_DoGetSqlInfo_def default_Alloc_def Let_def split: option.splits sum.splits)

theorem RegisterSqlInfo_needs_initialized_map_witness:
  "permitted (StringVal ''v1.0'')
   \<and> RegisterSqlInfo \<lparr>sqlInfoToResult = Some (fmupd 1 (BoolVal False) fmempty), Alloc = None\<rparr> 1
         (StringVal ''v1.0'')
       = Returns (None, \<lparr>sqlInfoToResult =
                            Some (fmupd 1 (StringVal ''v1.0'') (fmupd 1 (BoolVal False) fmempty)),
                          Alloc = None\<rparr>)
   \<and> index_map (Some (fmupd 1 (StringVal ''v1.0'') (fmupd 1 (BoolVal False) fmempty))) 1
       = Some (StringVal ''v1.0'')
   \<and> RegisterSqlInfo zero_BaseServer 1 (StringVal ''v1.0'')
       = Panics ''assignment to entry in nil map''"
  using RegisterSqlInfo_needs_initialized_map
    [of "StringVal ''v1.0''"
        "\<lparr>sqlInfoToResult = Some (fmupd 1 (BoolVal False) fmempty), Alloc = None\<rparr>" 1]
    RegisterSqlInfo_needs_initialized_map [of "StringVal ''v1.0''" zero_BaseServer 1]
  by (simp add: zero_BaseServer_def)

section \<open>The capability locator\<close>

lemma len_map_registered:
  assumes "index_map m i = Some v"
  shows "len_map m \<noteq> 0"
proof (cases m)
  case None
  with assms show ?thesis by simp
next
  case (Some f)
  with assms have "i |\<in>| fmdom f" by (simp add: fmdomI)
  then have "fmdom f \<noteq> {||}" by auto
  with Some show ?thesis by simp
qed

text \<open>
  C4. When at least one capability is registered, \<^verbatim>\<open>GetFlightInfoSqlInfo\<close> returns a
  \<^verbatim>\<open>FlightInfo\<close> with one endpoint, whose ticket is the \<^verbatim>\<open>cmd\<close> bytes of the request
  descriptor; its descriptor is that descriptor, \<^verbatim>\<open>TotalRecords\<close> and \<^verbatim>\<open>TotalBytes\<close> are
  both -1, and its schema is the serialized SqlInfo schema.
\<close>

theorem GetFlightInfoSqlInfo_locator:
  assumes "index_map (sqlInfoToResult b) i = Some v"
  shows "\<exists>info. BaseServer_GetFlightInfoSqlInfo ser cmd desc b = (Inr info, default_Alloc b)
           \<and> Endpoint info = [\<lparr>Ticket = Some \<lparr>Ticket_Ticket = Cmd desc\<rparr>, Location = []\<rparr>]
           \<and> FlightDescriptor info = Some desc
           \<and> TotalRecords info = - 1 \<and> sint (TotalRecords info) = - 1
           \<and> TotalBytes info = - 1 \<and> sint (TotalBytes info) = - 1
           \<and> Schema info = ser schema_ref_SqlInfo (the_Alloc b)"
  using len_map_registered [OF assms]
  by (simp add: BaseServer_GetFlightInfoSqlInfo_def)

theorem GetFlightInfoSqlInfo_locator_witness:
  "index_map (sqlInfoToResult example_BaseServer) 1 = Some (StringVal ''v1.0'')
   \<and> BaseServer_GetFlightInfoSqlInfo example_SerializeSchema [1, 2] \<lparr>Cmd = [5, 6], Path = []\<rparr>
         example_BaseServer
       = (Inr \<lparr>Schema = [],
               FlightDescriptor = Some \<lparr>Cmd = [5, 6], Path = []\<rparr>,
               Endpoint = [\<lparr>Ticket = Some \<lparr>Ticket_Ticket = [5, 6]\<rparr>, Location = []\<rparr>],
               TotalRecords = - 1, TotalBytes = - 1\<rparr>,
          example_BaseServer\<lparr>Alloc := Some DefaultAllocator\<rparr>)"
  using GetFlightInfoSqlInfo_locator
    [of example_BaseServer 1 "StringVal ''v1.0''" example_SerializeSchema "[1, 2]"
        "\<lparr>Cmd = [5, 6], Path = []\<rparr>"]
  by (auto simp: example_BaseServer_def example_SerializeSchema_def default_Alloc_def)

section \<open>The capability record\<close>

lemma fill_SqlInfo_first_unregistered:
  "find (\<lambda>i. index_map m i = None) ids = Some i \<Longrightarrow> fill_SqlInfo m ids names vals = Inl i"
  by (induction ids arbitrary: names vals) (auto split: option.splits if_splits)

text \<open>
  C5. When a request holds an id with no registered value, \<^verbatim>\<open>DoGetSqlInfo\<close> fails with
  \<^verbatim>\<open>NotFound\<close> and the message \<^verbatim>\<open>no information for sql info number <id>\<close>, where the
  id named is the first one of the request that has no value; the result carries no
  channel.
\<close>

theorem DoGetSqlInfo_unregistered_id:
  assumes "j \<in> set ids" and "index_map (sqlInfoToResult b) j = None"
  shows "\<exists>i. find (\<lambda>i. index_map (sqlInfoToResult b) i = None) ids = Some i
           \<and> i \<in> set ids \<and> index_map (sqlInfoToResult b) i = None
           \<and> BaseServer_DoGetSqlInfo ids b =
               (Inl (StatusError NotFound
                  (''no information for sql info number '' @ fmt_d (unat i))), default_Alloc b)"
proof -
  from assms obtain i where i: "find (\<lambda>i. index_map (sqlInfoToResult b) i = None) ids = Some i"
    by (cases "find (\<lambda>i. index_map (sqlInfoToResult b) i = None) ids") (auto simp: find_None_iff)
  then have "i \<in> set ids" "index_map (sqlInfoToResult b) i = None"
    by (auto simp: find_Some_iff)
  moreover from i have "fill_SqlInfo (sqlInfoToResult b) ids [] empty_DenseUnion = Inl i"
    by (rule fill_SqlInfo_first_unregistered)
  ultimately show ?thesis using i
    by (simp add: BaseServer_DoGetSqlInfo_def no_information_msg_def)
qed

theorem DoGetSqlInfo_unregistered_id_witness:
  "(99 :: 32 word) \<in> set [1, 99]
   \<and> index_map (sqlInfoToResult example_BaseServer) 99 = None
   \<and> BaseServer_DoGetSqlInfo [1, 99] example_BaseServer =
       (Inl (StatusError NotFound ''no information for sql info number 99''),
        example_BaseServer\<lparr>Alloc := Some DefaultAllocator\<rparr>)"
  using DoGetSqlInfo_unregistered_id [of 99 "[1, 99]" example_BaseServer]
  by (auto simp: example_BaseServer_def default_Alloc_def fmt_d.simps)

lemma Append_lengths:
  "permitted v \<Longrightarrow> length (valueOffsets u) = length (typeCodes u) \<Longrightarrow>
   length (typeCodes (sqlInfoResultBuilder_Append u v)) = Suc (length (typeCodes u))
   \<and> length (valueOffsets (sqlInfoResultBuilder_Append u v)) = Suc (length (typeCodes u))"
  by (cases v) simp_all

lemma Append_keeps_row:
  "k < length (typeCodes u) \<Longrightarrow> length (valueOffsets u) = length (typeCodes u) \<Longrightarrow>
   union_row u k = Some r \<Longrightarrow> union_row (sqlInfoResultBuilder_Append u v) k = Some r"
  by (cases v) (auto simp: union_row_def child_at_def nth_append Let_def split: if_splits)

lemma Append_new_row:
  "permitted v \<Longrightarrow> length (valueOffsets u) = length (typeCodes u) \<Longrightarrow>
   union_row (sqlInfoResultBuilder_Append u v) (length (typeCodes u)) = coded v"
  by (cases v) (simp_all add: union_row_def child_at_def nth_append Let_def coded_def)

lemma Append_rows:
  assumes "permitted v" and "length (valueOffsets u) = length (typeCodes u)"
    and "list_all (\<lambda>r. r \<noteq> None) (union_rows u)"
  shows "union_rows (sqlInfoResultBuilder_Append u v) = union_rows u @ [coded v]"
proof -
  let ?u = "sqlInfoResultBuilder_Append u v"
  let ?n = "length (typeCodes u)"
  have len: "length (typeCodes ?u) = Suc ?n"
    using Append_lengths [OF assms(1,2)] by simp
  have old: "union_row ?u k = union_row u k" if "k < ?n" for k
  proof -
    from assms(3) that have "union_row u k \<noteq> None"
      by (simp add: union_rows_def list_all_iff)
    then obtain r where "union_row u k = Some r" by blast
    with that assms(2) show ?thesis by (simp add: Append_keeps_row)
  qed
  have "union_rows ?u = map (union_row ?u) [0..<?n] @ [union_row ?u ?n]"
    by (simp add: union_rows_def len)
  also have "map (union_row ?u) [0..<?n] = map (union_row u) [0..<?n]"
    using old by simp
  also have "union_row ?u ?n = coded v"
    using assms(1,2) by (rule Append_new_row)
  finally show ?thesis by (simp add: union_rows_def)
qed

lemma coded_permitted: "permitted v \<Longrightarrow> coded v \<noteq> None"
  by (cases v) (simp_all add: coded_def)

lemma fill_SqlInfo_registered:
  assumes "list_all (registered m) ids"
    and "length (valueOffsets u) = length (typeCodes u)"
    and "list_all (\<lambda>r. r \<noteq> None) (union_rows u)"
  shows "\<exists>vals. fill_SqlInfo m ids names u = Inr (names @ ids, vals)
           \<and> length (valueOffsets vals) = length (typeCodes vals)
           \<and> union_rows vals = union_rows u @ map (\<lambda>i. Option.bind (index_map m i) coded) ids"
  using assms
proof (induction ids arbitrary: names u)
  case Nil
  then show ?case by simp
next
  case (Cons i ids)
  from Cons.prems(1) obtain v where v: "index_map m i = Some v" "permitted v"
    by (auto simp: registered_def split: option.splits)
  let ?u = "sqlInfoResultBuilder_Append u v"
  have rows: "union_rows ?u = union_rows u @ [coded v]"
    using v(2) Cons.prems(2,3) by (rule Append_rows)
  have len: "length (valueOffsets ?u) = length (typeCodes ?u)"
    using Append_lengths [OF v(2) Cons.prems(2)] by simp
  have ok: "list_all (\<lambda>r. r \<noteq> None) (union_rows ?u)"
    using rows Cons.prems(3) coded_permitted [OF v(2)] by simp
  from Cons.prems(1) have rest: "list_all (registered m) ids" by simp
  from Cons.IH [OF rest len ok, of "names @ [i]"] rows v show ?case
    by auto
qed

lemma union_rows_length: "length (union_rows u) = length (typeCodes u)"
  by (simp add: union_rows_def)

text \<open>
  C3. When every id of the request is registered, \<^verbatim>\<open>DoGetSqlInfo\<close> succeeds with the
  SqlInfo schema and a channel that delivers one chunk. Its record has as many rows as
  the request has ids; column 0 is the ids in request order; and row by row the
  dense-union column decodes to the value registered for the id, under the type code
  of that value's shape.
\<close>

theorem DoGetSqlInfo_registered_ids:
  assumes "list_all (registered (sqlInfoToResult b)) ids"
  shows "\<exists>vals. BaseServer_DoGetSqlInfo ids b =
           (Inr (schema_ref_SqlInfo,
                 [\<lparr>Data = Some \<lparr>rec_schema = schema_ref_SqlInfo,
                                 rec_columns = [Uint32Array ids, DenseUnionArray vals]\<rparr>,
                   Desc = None, AppMetadata = [], Err = None\<rparr>]),
            default_Alloc b)
         \<and> NumRows \<lparr>rec_schema = schema_ref_SqlInfo,
                     rec_columns = [Uint32Array ids, DenseUnionArray vals]\<rparr> = length ids
         \<and> Array_Len (DenseUnionArray vals) = length ids
         \<and> union_rows vals = map (\<lambda>i. Option.bind (index_map (sqlInfoToResult b) i) coded) ids
         \<and> list_all (\<lambda>r. r \<noteq> None) (union_rows vals)"
proof -
  have e: "union_rows empty_DenseUnion = []"
    by (simp add: union_rows_def empty_DenseUnion_def)
  have "length (valueOffsets empty_DenseUnion) = length (typeCodes empty_DenseUnion)"
    by (simp add: empty_DenseUnion_def)
  from fill_SqlInfo_registered [OF assms this, of "[]"] e
  obtain vals where vals:
    "fill_SqlInfo (sqlInfoToResult b) ids [] empty_DenseUnion = Inr (ids, vals)"
    "union_rows vals = map (\<lambda>i. Option.bind (index_map (sqlInfoToResult b) i) coded) ids"
    by auto
  from vals(2) have "length (union_rows vals) = length ids" by simp
  then have len: "length (typeCodes vals) = length ids" by (simp add: union_rows_length)
  have some: "list_all (\<lambda>r. r \<noteq> None) (union_rows vals)"
    unfolding vals(2) using assms
    by (induction ids) (auto simp: registered_def split: option.splits dest: coded_permitted)
  from vals len some show ?thesis
    by (simp add: BaseServer_DoGetSqlInfo_def NewRecordReader_def StreamChunksFromReader_def)
qed

theorem DoGetSqlInfo_registered_ids_witness:
  "list_all (registered (sqlInfoToResult example_BaseServer)) [1, 2]
   \<and> (\<exists>vals. BaseServer_DoGetSqlInfo [1, 2] example_BaseServer =
         (Inr (schema_ref_SqlInfo,
               [\<lparr>Data = Some \<lparr>rec_schema = schema_ref_SqlInfo,
                               rec_columns = [Uint32Array [1, 2], DenseUnionArray vals]\<rparr>,
                 Desc = None, AppMetadata = [], Err = None\<rparr>]),
          example_BaseServer\<lparr>Alloc := Some DefaultAllocator\<rparr>)
       \<and> union_rows vals = [Some (0, StringVal ''v1.0''), Some (1, BoolVal True)])"
proof -
  have r: "list_all (registered (sqlInfoToResult example_BaseServer)) [1, 2]"
    by (simp add: example_BaseServer_def registered_def)
  from DoGetSqlInfo_registered_ids [OF r] r show ?thesis
    by (auto simp: example_BaseServer_def default_Alloc_def coded_def)
qed

section \<open>The default base\<close>

lemmas BaseServer_defaults =
  BaseServer_GetFlightInfoStatement_def BaseServer_DoGetStatement_def
  BaseServer_GetFlightInfoPreparedStatement_def BaseServer_DoGetPreparedStatement_def
  BaseServer_GetFlightInfoCatalogs_def BaseServer_DoGetCatalogs_def
  BaseServer_GetFlightInfoXdbcTypeInfo_def BaseServer_DoGetXdbcTypeInfo_def
  BaseServer_GetFlightInfoSchemas_def BaseServer_DoGetDBSchemas_def
  BaseServer_GetFlightInfoTables_def BaseServer_DoGetTables_def
  BaseServer_GetFlightInfoTableTypes_def BaseServer_DoGetTableTypes_def
  BaseServer_GetFlightInfoPrimaryKeys_def BaseServer_DoGetPrimaryKeys_def
  BaseServer_GetFlightInfoExportedKeys_def BaseServer_DoGetExportedKeys_def
  BaseServer_GetFlightInfoImportedKeys_def BaseServer_DoGetImportedKeys_def
  BaseServer_GetFlightInfoCrossReference_def BaseServer_DoGetCrossReference_def
  BaseServer_CreatePreparedStatement_def BaseServer_ClosePreparedStatement_def
  BaseServer_DoPutCommandStatementUpdate_def BaseServer_DoPutPreparedStatementQuery_def
  BaseServer_DoPutPreparedStatementUpdate_def

text \<open>
  C8. Every handler method of \<^verbatim>\<open>BaseServer\<close> other than \<^verbatim>\<open>GetFlightInfoSqlInfo\<close> and
  \<^verbatim>\<open>DoGetSqlInfo\<close> returns an error of code \<^verbatim>\<open>Unimplemented\<close> whose message contains the
  name of the method. In particular \<^verbatim>\<open>GetFlightInfo\<close> on the base server with a
  \<^verbatim>\<open>CommandGetCatalogs\<close> yields \<^verbatim>\<open>GetFlightInfoCatalogs not implemented\<close>.
\<close>

theorem BaseServer_defaults_Unimplemented:
  "Unimplemented_naming ''GetFlightInfoStatement''
       (err_of (BaseServer_GetFlightInfoStatement x0 x1))
   \<and> Unimplemented_naming ''DoGetStatement''
       (err_of (BaseServer_DoGetStatement x2))
   \<and> Unimplemented_naming ''GetFlightInfoPreparedStatement''
       (err_of (BaseServer_GetFlightInfoPreparedStatement x3 x4))
   \<and> Unimplemented_naming ''DoGetPreparedStatement''
       (err_of (BaseServer_DoGetPreparedStatement x5))
   \<and> Unimplemented_naming ''GetFlightInfoCatalogs''
       (err_of (BaseServer_GetFlightInfoCatalogs x6))
   \<and> Unimplemented_naming ''DoGetCatalogs''
       (err_of BaseServer_DoGetCatalogs)
   \<and> Unimplemented_naming ''GetFlightInfoXdbcTypeInfo''
       (err_of (BaseServer_GetFlightInfoXdbcTypeInfo x7 x8))
   \<and> Unimplemented_naming ''DoGetXdbcTypeInfo''
       (err_of (BaseServer_DoGetXdbcTypeInfo x9))
   \<and> Unimplemented_naming ''GetFlightInfoSchemas''
       (err_of (BaseServer_GetFlightInfoSchemas x10 x11))
   \<and> Unimplemented_naming ''DoGetDBSchemas''
       (err_of (BaseServer_DoGetDBSchemas x12))
   \<and> Unimplemented_naming ''GetFlightInfoTables''
       (err_of (BaseServer_GetFlightInfoTables x13 x14))
   \<and> Unimplemented_naming ''DoGetTables''
       (err_of (BaseServer_DoGetTables x15))
   \<and> Unimplemented_naming ''GetFlightInfoTableTypes''
       (err_of (BaseServer_GetFlightInfoTableTypes x16))
   \<and> Unimplemented_naming ''DoGetTableTypes''
       (err_of BaseServer_DoGetTableTypes)
   \<and> Unimplemented_naming ''GetFlightInfoPrimaryKeys''
       (err_of (BaseServer_GetFlightInfoPrimaryKeys x17 x18))
   \<and> Unimplemented_naming ''DoGetPrimaryKeys''
       (err_of (BaseServer_DoGetPrimaryKeys x19))
   \<and> Unimplemented_naming ''GetFlightInfoExportedKeys''
       (err_of (BaseServer_GetFlightInfoExportedKeys x20 x21))
   \<and> Unimplemented_naming ''DoGetExportedKeys''
       (err_of (BaseServer_DoGetExportedKeys x22))
   \<and> Unimplemented_naming ''GetFlightInfoImportedKeys''
       (err_of (BaseServer_GetFlightInfoImportedKeys x23 x24))
   \<and> Unimplemented_naming ''DoGetImportedKeys''
       (err_of (BaseServer_DoGetImportedKeys x25))
   \<and> Unimplemented_naming ''GetFlightInfoCrossReference''
       (err_of (BaseServer_GetFlightInfoCrossReference x26 x27))
   \<and> Unimplemented_naming ''DoGetCrossReference''
       (err_of (BaseServer_DoGetCrossReference x28))
   \<and> Unimplemented_naming ''CreatePreparedStatement''
       (err_of (BaseServer_CreatePreparedStatement x29))
   \<and> Unimplemented_naming ''ClosePreparedStatement''
       (BaseServer_ClosePreparedStatement x30)
   \<and> Unimplemented_naming ''DoPutCommandStatementUpdate''
       (err_of (BaseServer_DoPutCommandStatementUpdate x31))
   \<and> Unimplemented_naming ''DoPutPreparedStatementQuery''
       (BaseServer_DoPutPreparedStatementQuery x32 x33 x34)
   \<and> Unimplemented_naming ''DoPutPreparedStatementUpdate''
       (err_of (BaseServer_DoPutPreparedStatementUpdate x35 x36))
   \<and> (\<forall>a. Unmarshal p (Cmd request) = Inr a \<and> UnmarshalNew p a = Inr CommandGetCatalogs \<longrightarrow>
          GetFlightInfo p (BaseServer_Server ser) request b =
            (Inl (StatusError Unimplemented ''GetFlightInfoCatalogs not implemented''), b))"
  by (auto simp: BaseServer_defaults GetFlightInfo_def BaseServer_Server_def)

theorem BaseServer_defaults_Unimplemented_witness:
  "GetFlightInfo example_proto (BaseServer_Server example_SerializeSchema)
      \<lparr>Cmd = [3], Path = []\<rparr> example_BaseServer =
     (Inl (StatusError Unimplemented ''GetFlightInfoCatalogs not implemented''),
      example_BaseServer)"
  using BaseServer_defaults_Unimplemented
    [where p = example_proto and request = "\<lparr>Cmd = [3], Path = []\<rparr>"
       and ser = example_SerializeSchema and b = example_BaseServer]
  by (simp add: example_proto_def example_decode_def)

section \<open>Dispatch of the statement commands\<close>

lemma GetFlightInfo_switch_invalid:
  "\<not> GetFlightInfo_dispatches cmd \<Longrightarrow>
   GetFlightInfo_switch srv cmd request s =
     (Inl (StatusError InvalidArgument ''requested command is invalid''), s)"
  by (cases cmd) simp_all

lemma DoGet_switch_invalid:
  "\<not> DoGet_dispatches cmd \<Longrightarrow>
   DoGet_switch srv cmd s = (Inl (StatusError InvalidArgument ''requested command is invalid''), s)"
  by (cases cmd) simp_all

text \<open>
  C7. \<^verbatim>\<open>DoGet\<close> hands a \<^verbatim>\<open>TicketStatementQuery\<close> to \<^verbatim>\<open>DoGetStatement\<close> and streams its
  result; \<^verbatim>\<open>GetFlightInfo\<close> hands a \<^verbatim>\<open>CommandStatementQuery\<close> to
  \<^verbatim>\<open>GetFlightInfoStatement\<close> and returns its result. Each verb returns
  \<^verbatim>\<open>InvalidArgument\<close> for the other's statement command, and for every decoded command
  its type switch has no case for; no handler is called then.
\<close>

theorem statement_commands_dispatch:
  assumes "Unmarshal p (Cmd request) = Inr a" and "UnmarshalNew p a = Inr cmd"
    and "Unmarshal p (Ticket_Ticket ticket) = Inr a'" and "UnmarshalNew p a' = Inr cmd'"
  shows "(\<forall>q. cmd = CommandStatementQuery q \<longrightarrow>
            GetFlightInfo p srv request s = GetFlightInfoStatement srv q request s)
       \<and> (\<forall>h. cmd' = TicketStatementQuery h \<longrightarrow>
            DoGet p srv wr ticket s =
              (DoGet_stream wr (fst (DoGetStatement srv h s)), snd (DoGetStatement srv h s)))
       \<and> (\<forall>h. cmd = TicketStatementQuery h \<longrightarrow>
            GetFlightInfo p srv request s =
              (Inl (StatusError InvalidArgument ''requested command is invalid''), s))
       \<and> (\<forall>q. cmd' = CommandStatementQuery q \<longrightarrow>
            DoGet p srv wr ticket s =
              ((Returns (Some (StatusError InvalidArgument ''requested command is invalid'')), []),
               s))
       \<and> (\<not> GetFlightInfo_dispatches cmd \<longrightarrow>
            GetFlightInfo p srv request s =
              (Inl (StatusError InvalidArgument ''requested command is invalid''), s))
       \<and> (\<not> DoGet_dispatches cmd' \<longrightarrow>
            DoGet p srv wr ticket s =
              ((Returns (Some (StatusError InvalidArgument ''requested command is invalid'')), []),
               s))"
  using assms
  by (auto simp: GetFlightInfo_def DoGet_def DoGet_stream_def GetFlightInfo_switch_invalid
      DoGet_switch_invalid split: prod.splits)

theorem statement_commands_dispatch_witness:
  "GetFlightInfo example_proto (BaseServer_Server example_SerializeSchema)
      \<lparr>Cmd = [1], Path = []\<rparr> example_BaseServer =
     (Inl (StatusError Unimplemented ''GetFlightInfoStatement not implemented''),
      example_BaseServer)
   \<and> DoGet example_proto (BaseServer_Server example_SerializeSchema) (\<lambda>tr d m. None)
        \<lparr>Ticket_Ticket = [2]\<rparr> example_BaseServer =
       ((Returns (Some (StatusError Unimplemented ''DoGetStatement not implemented'')), []),
        example_BaseServer)
   \<and> GetFlightInfo example_proto (BaseServer_Server example_SerializeSchema)
        \<lparr>Cmd = [2], Path = []\<rparr> example_BaseServer =
       (Inl (StatusError InvalidArgument ''requested command is invalid''), example_BaseServer)
   \<and> DoGet example_proto (BaseServer_Server example_SerializeSchema) (\<lambda>tr d m. None)
        \<lparr>Ticket_Ticket = [1]\<rparr> example_BaseServer =
       ((Returns (Some (StatusError InvalidArgument ''requested command is invalid'')), []),
        example_BaseServer)"
  using statement_commands_dispatch
    [where p = example_proto and request = "\<lparr>Cmd = [1], Path = []\<rparr>"
       and ticket = "\<lparr>Ticket_Ticket = [2]\<rparr>"
       and srv = "BaseServer_Server example_SerializeSchema" and s = example_BaseServer
       and wr = "\<lambda>tr d m. None"]
    statement_commands_dispatch
    [where p = example_proto and request = "\<lparr>Cmd = [2], Path = []\<rparr>"
       and ticket = "\<lparr>Ticket_Ticket = [1]\<rparr>"
       and srv = "BaseServer_Server example_SerializeSchema" and s = example_BaseServer
       and wr = "\<lambda>tr d m. None"]
  by (simp add: example_proto_def example_decode_def BaseServer_Server_def DoGet_stream_def
      BaseServer_GetFlightInfoStatement_def BaseServer_DoGetStatement_def)

section \<open>The reply to a statement update\<close>

text \<open>
  C9. When the command of a \<^verbatim>\<open>DoPut\<close> decodes to a \<^verbatim>\<open>CommandStatementUpdate\<close>, the router
  calls \<^verbatim>\<open>DoPutCommandStatementUpdate\<close>. When the handler returns a count, the router
  hands one \<^verbatim>\<open>PutResult\<close> to the stream, whose \<^verbatim>\<open>AppMetadata\<close> is the marshalled
  \<^verbatim>\<open>DoPutUpdateResult\<close> of that count, and returns what \<^verbatim>\<open>Send\<close> returns. When the
  handler fails, the router returns the handler's error and sends nothing.
\<close>

theorem DoPut_StatementUpdate_reply:
  assumes "LatestFlightDescriptor rdr = Some request"
    and "Unmarshal p (Cmd request) = Inr a"
    and "UnmarshalNew p a = Inr (CommandStatementUpdate q)"
  shows "(\<forall>c s' md. DoPutCommandStatementUpdate srv q s = (Inr c, s') \<and> Marshal p c = Inr md \<longrightarrow>
            DoPut p srv Send (Inr rdr) s =
              (Returns (Send \<lparr>Put_AppMetadata = md\<rparr>, [\<lparr>Put_AppMetadata = md\<rparr>]), s'))
       \<and> (\<forall>e s'. DoPutCommandStatementUpdate srv q s = (Inl e, s') \<longrightarrow>
            DoPut p srv Send (Inr rdr) s = (Returns (Some e, []), s'))"
  using assms by (simp add: DoPut_def send_update_result_def)

theorem DoPut_StatementUpdate_reply_witness:
  "DoPut example_proto example_update_Server (\<lambda>m. None)
      (Inr \<lparr>LatestFlightDescriptor = Some \<lparr>Cmd = [4], Path = []\<rparr>, Batches = []\<rparr>)
      example_BaseServer =
     (Returns (None, [\<lparr>Put_AppMetadata = [8, 7]\<rparr>]), example_BaseServer)
   \<and> DoPut example_proto (BaseServer_Server example_SerializeSchema) (\<lambda>m. None)
        (Inr \<lparr>LatestFlightDescriptor = Some \<lparr>Cmd = [4], Path = []\<rparr>, Batches = []\<rparr>)
        example_BaseServer =
       (Returns (Some (StatusError Unimplemented ''DoPutCommandStatementUpdate not implemented''),
                 []), example_BaseServer)"
  using DoPut_StatementUpdate_reply
    [where p = example_proto and srv = example_update_Server and s = example_BaseServer
       and rdr = "\<lparr>LatestFlightDescriptor = Some \<lparr>Cmd = [4], Path = []\<rparr>, Batches = []\<rparr>"
       and request = "\<lparr>Cmd = [4], Path = []\<rparr>" and Send = "\<lambda>m. None"]
    DoPut_StatementUpdate_reply
    [where p = example_proto and srv = "BaseServer_Server example_SerializeSchema"
       and s = example_BaseServer
       and rdr = "\<lparr>LatestFlightDescriptor = Some \<lparr>Cmd = [4], Path = []\<rparr>, Batches = []\<rparr>"
       and request = "\<lparr>Cmd = [4], Path = []\<rparr>" and Send = "\<lambda>m. None"]
  by (simp add: example_proto_def example_decode_def example_update_Server_def
      BaseServer_Server_def BaseServer_DoPutCommandStatementUpdate_def)

section \<open>The streaming loop of \<^verbatim>\<open>DoGet\<close>\<close>

lemma released_append: "released (xs @ ys) = released xs @ released ys"
  by (induction xs rule: released.induct) simp_all

text \<open>
  When no chunk carries an error, every chunk has a batch and every write succeeds, the
  loop returns nil and releases the batch of every chunk once, in order.
\<close>

lemma DoGet_loop_success_releases:
  assumes "list_all (\<lambda>c. Err c = None \<and> Data c \<noteq> None) cc"
  shows "\<exists>tr'. DoGet_loop (\<lambda>tr d m. None) None tr cc = (Returns None, tr')
           \<and> released tr' = released tr @ List.map_filter Data cc"
  using assms
proof (induction cc arbitrary: tr)
  case Nil
  then show ?case by simp
next
  case (Cons c cc)
  then obtain batch where b: "Data c = Some batch" "Err c = None" by auto
  let ?tr = "tr @ [SetFlightDescriptor (Desc c),
                   WriteWithAppMetadata (Data c) (AppMetadata c) None, Release batch]"
  from Cons.prems have "list_all (\<lambda>c. Err c = None \<and> Data c \<noteq> None) cc" by simp
  from Cons.IH [OF this, of ?tr] b show ?case
    by (simp add: released_append)
qed

text \<open>A chunk with an error ends the loop: nothing more is written, and the result is
  the named result \<open>err\<close> as it stands, not the chunk's error.\<close>

lemma DoGet_loop_error_chunk:
  "Err chunk = Some e \<Longrightarrow> DoGet_loop wr err tr (chunk # cc) = (Returns err, tr)"
  by simp

text \<open>
  With a writer that never fails, the loop returns no error at all, whatever errors
  the chunks carry.
\<close>

lemma DoGet_loop_never_chunk_error:
  "fst (DoGet_loop (\<lambda>tr d m. None) None tr cc) \<noteq> Returns (Some e)"
  by (induction cc arbitrary: tr) (auto simp: Let_def split: option.splits)

text \<open>
  C1. The specification has a chunk with a non-nil \<^verbatim>\<open>Err\<close> end the RPC with that error.
  The branch of the source is \<^verbatim>\<open>if chunk.Err != nil { return err }\<close>, and \<open>err\<close> is nil
  there. For a first chunk with the error \<open>e\<close>, whatever follows it on the channel,
  \<^verbatim>\<open>DoGet\<close> writes nothing, closes the writer and returns nil: the stream ends and no
  further chunk is sent, but the error is lost.
\<close>

theorem DoGet_error_chunk_returns_nil:
  "DoGet_stream wr (Inr (sc, \<lparr>Data = d, Desc = ds, AppMetadata = md, Err = Some e\<rparr> # cc))
     = (Returns None, [NewRecordWriter sc, Close])"
  by (simp add: DoGet_stream_def)

text \<open>
  C2. The specification has every chunk taken from the channel released once on every
  way out. In the source a failed write returns before \<^verbatim>\<open>chunk.Data.Release()\<close>. For
  one chunk with a batch and a writer that fails with \<open>e\<close>, \<^verbatim>\<open>DoGet\<close> returns \<open>e\<close> after
  the write and the close, and the batch has been released zero times.
\<close>

theorem DoGet_write_error_no_release:
  "DoGet_stream (\<lambda>tr d m. Some e)
     (Inr (sc, [\<lparr>Data = Some batch, Desc = ds, AppMetadata = md, Err = None\<rparr>]))
   = (Returns (Some e),
      [NewRecordWriter sc, SetFlightDescriptor ds,
       WriteWithAppMetadata (Some batch) md (Some e), Close])
   \<and> releases batch (snd (DoGet_stream (\<lambda>tr d m. Some e)
       (Inr (sc, [\<lparr>Data = Some batch, Desc = ds, AppMetadata = md, Err = None\<rparr>])))) = 0"
  by (simp add: DoGet_stream_def releases_def Let_def)

end
